theory Spec2Isabelle
  imports Main "HOL-Library.Sublist"
begin

section \<open>Strings of the host language\<close>

text \<open>
  The repository is a TypeScript/React front end. Its strings are modelled as
  \<^typ>\<open>string\<close>, holding the UTF-8 bytes of the text: concatenation, equality and
  substring search on well-formed text agree with the source's code-unit strings.
  Text outside ASCII (the Korean literals of the source) is written byte by byte.
  An absent or empty \<open>message\<close> of an error object is the empty string: the source
  only ever tests it for truthiness, where \<open>undefined\<close> and \<open>''\<close> agree.
\<close>

text \<open>\<open>s.indexOf(pat)\<close>: the first position at which \<open>pat\<close> occurs in \<open>s\<close>.\<close>

fun indexOf :: "string \<Rightarrow> string \<Rightarrow> nat option" where
  "indexOf [] pat = (if pat = [] then Some 0 else None)"
| "indexOf (c # cs) pat =
     (if prefix pat (c # cs) then Some 0 else map_option Suc (indexOf cs pat))"

text \<open>\<open>s.includes(pat)\<close>.\<close>

definition str_includes :: "string \<Rightarrow> string \<Rightarrow> bool" where
  "str_includes s pat = (indexOf s pat \<noteq> None)"

text \<open>
  The substitution patterns of \<open>String.prototype.replace\<close> when the replacement is
  a string (ECMAScript GetSubstitution, with no capture groups since the pattern is a
  string): \<open>$$\<close> inserts a dollar sign, \<open>$&\<close> the matched text, \<open>$`\<close> the text
  before the match and \<open>$'\<close> the text after it; any other character, and a dollar
  sign followed by anything else, stands for itself.
\<close>

fun getSubstitution :: "string \<Rightarrow> string \<Rightarrow> nat \<Rightarrow> string \<Rightarrow> string" where
  "getSubstitution matched str pos [] = []"
| "getSubstitution matched str pos [c] = [c]"
| "getSubstitution matched str pos (c # d # r) =
     (if c = CHR ''$'' \<and> d = CHR ''$'' then CHR ''$'' # getSubstitution matched str pos r
      else if c = CHR ''$'' \<and> d = CHR ''&'' then matched @ getSubstitution matched str pos r
      else if c = CHR ''$'' \<and> d = CHR 0x60 then take pos str @ getSubstitution matched str pos r
      else if c = CHR ''$'' \<and> d = CHR 0x27
        then drop (pos + length matched) str @ getSubstitution matched str pos r
      else c # getSubstitution matched str pos (d # r))"

text \<open>\<open>s.replace(pat, repl)\<close> with a string pattern: the first occurrence only.\<close>

definition str_replace :: "string \<Rightarrow> string \<Rightarrow> string \<Rightarrow> string" where
  "str_replace s pat repl =
     (case indexOf s pat of
        None \<Rightarrow> s
      | Some p \<Rightarrow> take p s @ getSubstitution pat s p repl @ drop (p + length pat) s)"

text \<open>
  \<open>String(n)\<close> for a non-negative integer: its decimal digits. (The source's numbers
  are doubles; the model covers the integers they represent exactly and print without
  an exponent, which is every value a traveller count or a budget takes in practice.)
\<close>

definition digit :: "nat \<Rightarrow> char" where
  "digit d = ''0123456789'' ! d"

function String_of_number :: "nat \<Rightarrow> string" where
  "String_of_number n =
     (if n < 10 then [digit n] else String_of_number (n div 10) @ [digit (n mod 10)])"
  by pat_completeness auto
termination
  by (relation "measure (\<lambda>n. n)") auto

declare String_of_number.simps [simp del]

text \<open>
  \<open>s.trim()\<close>: the white space and line terminator characters of ECMAScript removed
  at both ends. In the UTF-8 bytes of the text they are six single bytes (tab, line
  feed, vertical tab, form feed, carriage return, space), one sequence of two bytes
  (U+00A0) and the sequences of three bytes of U+1680, U+2000 to U+200A, U+2028,
  U+2029, U+202F, U+205F, U+3000 and U+FEFF.
\<close>

definition isWhiteSpace1 :: "char \<Rightarrow> bool" where
  "isWhiteSpace1 a =
     (a \<in> set [CHR 0x09, CHR 0x0A, CHR 0x0B, CHR 0x0C, CHR 0x0D, CHR 0x20])"

definition isWhiteSpace2 :: "char \<Rightarrow> char \<Rightarrow> bool" where
  "isWhiteSpace2 a b = (a = CHR 0xC2 \<and> b = CHR 0xA0)"

definition isWhiteSpace3 :: "char \<Rightarrow> char \<Rightarrow> char \<Rightarrow> bool" where
  "isWhiteSpace3 a b c =
     (a = CHR 0xE1 \<and> b = CHR 0x9A \<and> c = CHR 0x80 \<or>
      a = CHR 0xE2 \<and> b = CHR 0x80 \<and>
        c \<in> set [CHR 0x80, CHR 0x81, CHR 0x82, CHR 0x83, CHR 0x84, CHR 0x85, CHR 0x86,
                 CHR 0x87, CHR 0x88, CHR 0x89, CHR 0x8A, CHR 0xA8, CHR 0xA9, CHR 0xAF] \<or>
      a = CHR 0xE2 \<and> b = CHR 0x81 \<and> c = CHR 0x9F \<or>
      a = CHR 0xE3 \<and> b = CHR 0x80 \<and> c = CHR 0x80 \<or>
      a = CHR 0xEF \<and> b = CHR 0xBB \<and> c = CHR 0xBF)"

text \<open>White space removed at the start of a text.\<close>

fun trimStart :: "string \<Rightarrow> string" where
  "trimStart (a # b # c # r) =
     (if isWhiteSpace1 a then trimStart (b # c # r)
      else if isWhiteSpace2 a b then trimStart (c # r)
      else if isWhiteSpace3 a b c then trimStart r
      else a # b # c # r)"
| "trimStart [a, b] =
     (if isWhiteSpace1 a then trimStart [b]
      else if isWhiteSpace2 a b then []
      else [a, b])"
| "trimStart [a] = (if isWhiteSpace1 a then [] else [a])"
| "trimStart [] = []"

text \<open>
  White space removed at the end of a text, on the text read backwards (its last byte
  first): a white space character of three bytes \<open>a b c\<close> then reads \<open>c b a\<close>.
\<close>

fun trimEndReversed :: "string \<Rightarrow> string" where
  "trimEndReversed (c # b # a # r) =
     (if isWhiteSpace1 c then trimEndReversed (b # a # r)
      else if isWhiteSpace2 b c then trimEndReversed (a # r)
      else if isWhiteSpace3 a b c then trimEndReversed r
      else c # b # a # r)"
| "trimEndReversed [c, b] =
     (if isWhiteSpace1 c then trimEndReversed [b]
      else if isWhiteSpace2 b c then []
      else [c, b])"
| "trimEndReversed [c] = (if isWhiteSpace1 c then [] else [c])"
| "trimEndReversed [] = []"

definition str_trim :: "string \<Rightarrow> string" where
  "str_trim s = rev (trimEndReversed (rev (trimStart s)))"

section \<open>types.ts and constants.ts\<close>

datatype Role = User | Model

record ChatMessage =
  role :: Role
  content :: string

record TravelPlan =
  destination :: string
  travelDates :: string
  travelers :: nat
  totalBudget :: nat
  travelStyle :: string
  specialInterests :: string

text \<open>
  \<open>INITIAL_PROMPT_TEMPLATE\<close>: an opening sentence, six lines of Korean text, one per
  field, each holding the placeholder of that field in braces, and a closing request
  for advice. The text between the placeholders is given first, piece by piece.
\<close>

text \<open>The opening sentence and the label of the destination line (75 bytes).\<close>

definition tmpl_opening :: string where
  "tmpl_opening =
     [CHR 0xEC, CHR 0xA0, CHR 0x9C, CHR 0xEA, CHR 0xB0, CHR 0x80, CHR 0x20, CHR 0xEA, CHR 0xB3,
      CHR 0x84, CHR 0xED, CHR 0x9A, CHR 0x8D, CHR 0x20, CHR 0xEC, CHR 0xA4, CHR 0x91, CHR 0xEC,
      CHR 0x9D, CHR 0xB8, CHR 0x20, CHR 0xEC, CHR 0x97, CHR 0xAC, CHR 0xED, CHR 0x96, CHR 0x89,
      CHR 0x20, CHR 0xEC, CHR 0xA0, CHR 0x95, CHR 0xEB, CHR 0xB3, CHR 0xB4, CHR 0xEB, CHR 0x8A,
      CHR 0x94, CHR 0x20, CHR 0xEB, CHR 0x8B, CHR 0xA4, CHR 0xEC, CHR 0x9D, CHR 0x8C, CHR 0xEA,
      CHR 0xB3, CHR 0xBC, CHR 0x20, CHR 0xEA, CHR 0xB0, CHR 0x99, CHR 0xEC, CHR 0x8A, CHR 0xB5,
      CHR 0xEB, CHR 0x8B, CHR 0x88, CHR 0xEB, CHR 0x8B, CHR 0xA4, CHR 0x3A, CHR 0x0A, CHR 0x2D,
      CHR 0x20, CHR 0xEB, CHR 0xAA, CHR 0xA9, CHR 0xEC, CHR 0xA0, CHR 0x81, CHR 0xEC, CHR 0xA7,
      CHR 0x80, CHR 0x3A, CHR 0x20]"

text \<open>The line break and the label of the travel dates line (18 bytes).\<close>

definition tmpl_dates_label :: string where
  "tmpl_dates_label =
     [CHR 0x0A, CHR 0x2D, CHR 0x20, CHR 0xEC, CHR 0x97, CHR 0xAC, CHR 0xED, CHR 0x96, CHR 0x89,
      CHR 0x20, CHR 0xEA, CHR 0xB8, CHR 0xB0, CHR 0xEA, CHR 0xB0, CHR 0x84, CHR 0x3A, CHR 0x20]"

text \<open>The line break and the label of the travellers line (14 bytes).\<close>

definition tmpl_travelers_label :: string where
  "tmpl_travelers_label =
     [CHR 0x0A, CHR 0x2D, CHR 0x20, CHR 0xEC, CHR 0x9D, CHR 0xB8, CHR 0xEC, CHR 0x9B, CHR 0x90,
      CHR 0xEC, CHR 0x88, CHR 0x98, CHR 0x3A, CHR 0x20]"

text \<open>The counter word closing the travellers line, and the label of the budget line (18 bytes).\<close>

definition tmpl_budget_label :: string where
  "tmpl_budget_label =
     [CHR 0xEB, CHR 0xAA, CHR 0x85, CHR 0x0A, CHR 0x2D, CHR 0x20, CHR 0xEC, CHR 0xB4, CHR 0x9D,
      CHR 0x20, CHR 0xEC, CHR 0x98, CHR 0x88, CHR 0xEC, CHR 0x82, CHR 0xB0, CHR 0x3A, CHR 0x20]"

text \<open>The currency word closing the budget line, and the label of the travel style line (24 bytes).\<close>

definition tmpl_style_label :: string where
  "tmpl_style_label =
     [CHR 0xEC, CHR 0x9B, CHR 0x90, CHR 0x0A, CHR 0x2D, CHR 0x20, CHR 0xEC, CHR 0x97, CHR 0xAC,
      CHR 0xED, CHR 0x96, CHR 0x89, CHR 0x20, CHR 0xEC, CHR 0x8A, CHR 0xA4, CHR 0xED, CHR 0x83,
      CHR 0x80, CHR 0xEC, CHR 0x9D, CHR 0xBC, CHR 0x3A, CHR 0x20]"

text \<open>The line break and the label of the special interests line (21 bytes).\<close>

definition tmpl_interests_label :: string where
  "tmpl_interests_label =
     [CHR 0x0A, CHR 0x2D, CHR 0x20, CHR 0xED, CHR 0x8A, CHR 0xB9, CHR 0xEB, CHR 0xB3, CHR 0x84,
      CHR 0x20, CHR 0xEA, CHR 0xB4, CHR 0x80, CHR 0xEC, CHR 0x8B, CHR 0xAC, CHR 0xEC, CHR 0x82,
      CHR 0xAC, CHR 0x3A, CHR 0x20]"

text \<open>The blank line and the closing request for advice (365 bytes).\<close>

definition tmpl_closing :: string where
  "tmpl_closing =
     [CHR 0x0A, CHR 0x0A, CHR 0xEC, CHR 0x9D, CHR 0xB4, CHR 0x20, CHR 0xEC, CHR 0xA0, CHR 0x95,
      CHR 0xEB, CHR 0xB3, CHR 0xB4, CHR 0xEB, CHR 0xA5, CHR 0xBC, CHR 0x20, CHR 0xEB, CHR 0xB0,
      CHR 0x94, CHR 0xED, CHR 0x83, CHR 0x95, CHR 0xEC, CHR 0x9C, CHR 0xBC, CHR 0xEB, CHR 0xA1,
      CHR 0x9C, CHR 0x2C, CHR 0x20, CHR 0xEC, CHR 0xA0, CHR 0x9C, CHR 0xEA, CHR 0xB0, CHR 0x80,
      CHR 0x20, CHR 0xEC, CHR 0x9D, CHR 0xB4, CHR 0x20, CHR 0xEC, CHR 0x97, CHR 0xAC, CHR 0xED,
      CHR 0x96, CHR 0x89, CHR 0xEC, CHR 0x97, CHR 0x90, CHR 0xEC, CHR 0x84, CHR 0x9C, CHR 0x20,
      CHR 0xEC, CHR 0xB5, CHR 0x9C, CHR 0xEB, CHR 0x8C, CHR 0x80, CHR 0xED, CHR 0x95, CHR 0x9C,
      CHR 0x20, CHR 0xEB, CHR 0xB9, CHR 0x84, CHR 0xEC, CHR 0x9A, CHR 0xA9, CHR 0xEC, CHR 0x9D,
      CHR 0x84, CHR 0x20, CHR 0xEC, CHR 0xA0, CHR 0x88, CHR 0xEA, CHR 0xB0, CHR 0x90, CHR 0xED,
      CHR 0x95, CHR 0x98, CHR 0xEB, CHR 0xA9, CHR 0xB4, CHR 0xEC, CHR 0x84, CHR 0x9C, CHR 0xEB,
      CHR 0x8F, CHR 0x84, CHR 0x20, CHR 0xEB, CHR 0xA7, CHR 0x8C, CHR 0xEC, CHR 0xA1, CHR 0xB1,
      CHR 0xEB, CHR 0x8F, CHR 0x84, CHR 0x20, CHR 0xEB, CHR 0x86, CHR 0x92, CHR 0xEC, CHR 0x9D,
      CHR 0x80, CHR 0x20, CHR 0xEA, CHR 0xB2, CHR 0xBD, CHR 0xED, CHR 0x97, CHR 0x98, CHR 0xEC,
      CHR 0x9D, CHR 0x84, CHR 0x20, CHR 0xED, CHR 0x95, CHR 0xA0, CHR 0x20, CHR 0xEC, CHR 0x88,
      CHR 0x98, CHR 0x20, CHR 0xEC, CHR 0x9E, CHR 0x88, CHR 0xEB, CHR 0x8F, CHR 0x84, CHR 0xEB,
      CHR 0xA1, CHR 0x9D, CHR 0x20, CHR 0xEA, CHR 0xB5, CHR 0xAC, CHR 0xEC, CHR 0xB2, CHR 0xB4,
      CHR 0xEC, CHR 0xA0, CHR 0x81, CHR 0xEC, CHR 0x9D, CHR 0xB4, CHR 0xEA, CHR 0xB3, CHR 0xA0,
      CHR 0x20, CHR 0xEC, CHR 0x8B, CHR 0xA4, CHR 0xEC, CHR 0x9A, CHR 0xA9, CHR 0xEC, CHR 0xA0,
      CHR 0x81, CHR 0xEC, CHR 0x9D, CHR 0xB8, CHR 0x20, CHR 0xEC, CHR 0xA1, CHR 0xB0, CHR 0xEC,
      CHR 0x96, CHR 0xB8, CHR 0xEC, CHR 0x9D, CHR 0x84, CHR 0x20, CHR 0xED, CHR 0x95, CHR 0xB4,
      CHR 0xEC, CHR 0xA3, CHR 0xBC, CHR 0xEC, CHR 0x84, CHR 0xB8, CHR 0xEC, CHR 0x9A, CHR 0x94,
      CHR 0x2E, CHR 0x20, CHR 0xED, CHR 0x95, CHR 0xAD, CHR 0xEA, CHR 0xB3, CHR 0xB5, CHR 0xEA,
      CHR 0xB6, CHR 0x8C, CHR 0x2C, CHR 0x20, CHR 0xEC, CHR 0x88, CHR 0x99, CHR 0xEC, CHR 0x86,
      CHR 0x8C, CHR 0x2C, CHR 0x20, CHR 0xEC, CHR 0x8B, CHR 0x9D, CHR 0xEC, CHR 0x82, CHR 0xAC,
      CHR 0x2C, CHR 0x20, CHR 0xED, CHR 0x99, CHR 0x9C, CHR 0xEB, CHR 0x8F, CHR 0x99, CHR 0x2C,
      CHR 0x20, CHR 0xED, CHR 0x98, CHR 0x84, CHR 0xEC, CHR 0xA7, CHR 0x80, CHR 0x20, CHR 0xEA,
      CHR 0xB5, CHR 0x90, CHR 0xED, CHR 0x86, CHR 0xB5, CHR 0x20, CHR 0xEB, CHR 0x93, CHR 0xB1,
      CHR 0x20, CHR 0xEC, CHR 0xA0, CHR 0x84, CHR 0xEB, CHR 0xB0, CHR 0x98, CHR 0xEC, CHR 0xA0,
      CHR 0x81, CHR 0xEC, CHR 0x9D, CHR 0xB8, CHR 0x20, CHR 0xEC, CHR 0x98, CHR 0x88, CHR 0xEC,
      CHR 0x82, CHR 0xB0, CHR 0x20, CHR 0xEC, CHR 0xA0, CHR 0x88, CHR 0xEA, CHR 0xB0, CHR 0x90,
      CHR 0x20, CHR 0xED, CHR 0x8C, CHR 0x81, CHR 0xEA, CHR 0xB3, CHR 0xBC, CHR 0x20, CHR 0xED,
      CHR 0x95, CHR 0xA8, CHR 0xEA, CHR 0xBB, CHR 0x98, CHR 0x2C, CHR 0x20, CHR 0xEC, CHR 0xB6,
      CHR 0x94, CHR 0xEC, CHR 0xB2, CHR 0x9C, CHR 0xED, CHR 0x95, CHR 0xA0, CHR 0x20, CHR 0xEB,
      CHR 0xA7, CHR 0x8C, CHR 0xED, CHR 0x95, CHR 0x9C, CHR 0x20, CHR 0xEB, CHR 0xAC, CHR 0xB4,
      CHR 0xEB, CHR 0xA3, CHR 0x8C, CHR 0x2F, CHR 0xEC, CHR 0xA0, CHR 0x80, CHR 0xEA, CHR 0xB0,
      CHR 0x80, CHR 0x20, CHR 0xEB, CHR 0xAA, CHR 0x85, CHR 0xEC, CHR 0x86, CHR 0x8C, CHR 0xEB,
      CHR 0x8F, CHR 0x84, CHR 0x20, CHR 0xEC, CHR 0x95, CHR 0x8C, CHR 0xEB, CHR 0xA0, CHR 0xA4,
      CHR 0xEC, CHR 0xA3, CHR 0xBC, CHR 0xEC, CHR 0x8B, CHR 0x9C, CHR 0xEB, CHR 0xA9, CHR 0xB4,
      CHR 0x20, CHR 0xEA, CHR 0xB0, CHR 0x90, CHR 0xEC, CHR 0x82, CHR 0xAC, CHR 0xED, CHR 0x95,
      CHR 0x98, CHR 0xEA, CHR 0xB2, CHR 0xA0, CHR 0xEC, CHR 0x8A, CHR 0xB5, CHR 0xEB, CHR 0x8B,
      CHR 0x88, CHR 0xEB, CHR 0x8B, CHR 0xA4, CHR 0x2E]"

definition INITIAL_PROMPT_TEMPLATE :: string where
  "INITIAL_PROMPT_TEMPLATE =
     tmpl_opening @
     ''{destination}'' @
     tmpl_dates_label @
     ''{travelDates}'' @
     tmpl_travelers_label @
     ''{travelers}'' @
     tmpl_budget_label @
     ''{totalBudget}'' @
     tmpl_style_label @
     ''{travelStyle}'' @
     tmpl_interests_label @
     ''{specialInterests}'' @
     tmpl_closing"

text \<open>
  The keys of a plan in the order \<open>for (const key in plan)\<close> visits them (the order
  in which the questions of \<open>INITIAL_QUESTIONS\<close> fill the object in), each with
  \<open>String(plan[key])\<close>.
\<close>

definition plan_entries :: "TravelPlan \<Rightarrow> (string \<times> string) list" where
  "plan_entries plan =
     [(''destination'', destination plan),
      (''travelDates'', travelDates plan),
      (''travelers'', String_of_number (travelers plan)),
      (''totalBudget'', String_of_number (totalBudget plan)),
      (''travelStyle'', travelStyle plan),
      (''specialInterests'', specialInterests plan)]"

text \<open>The substitution loop of \<open>initializeChatSession\<close>.\<close>

definition initialPrompt :: "TravelPlan \<Rightarrow> string" where
  "initialPrompt plan =
     foldl (\<lambda>p (key, v). str_replace p (''{'' @ key @ ''}'') v)
       INITIAL_PROMPT_TEMPLATE (plan_entries plan)"

text \<open>
  For comparison, the rendering in the words of the specification: the template with
  each placeholder replaced literally by the textual form of its field.
\<close>

definition literalPrompt :: "TravelPlan \<Rightarrow> string" where
  "literalPrompt plan =
     tmpl_opening @ destination plan @
     tmpl_dates_label @ travelDates plan @
     tmpl_travelers_label @ String_of_number (travelers plan) @
     tmpl_budget_label @ String_of_number (totalBudget plan) @
     tmpl_style_label @ travelStyle plan @
     tmpl_interests_label @ specialInterests plan @
     tmpl_closing"

text \<open>A field text that holds no dollar sign and no opening brace.\<close>

definition plainText :: "string \<Rightarrow> bool" where
  "plainText v = (CHR ''$'' \<notin> set v \<and> CHR ''{'' \<notin> set v)"

section \<open>services/geminiService.ts\<close>

text \<open>
  A chat session of the client library is an opaque object; the model names the
  sessions by the order of their creation.
\<close>

type_synonym Chat = nat

text \<open>
  What the surroundings of the program answer: the API key of the process environment
  (empty when unset), the error, if any, with which the client library fails to create
  a session, and the two optional methods of \<open>window.aistudio\<close>.
  \<open>hasSelectedApiKey\<close> is \<open>None\<close> when \<open>window.aistudio\<close> or the method is
  absent, otherwise the answer of the call; \<open>openSelectKey\<close> tells whether
  \<open>window.aistudio.openSelectKey\<close> exists (a call of it is taken to resolve).
\<close>

record env =
  API_KEY :: string
  createError :: "string option"
  hasSelectedApiKey :: "bool option"
  openSelectKey :: bool

text \<open>
  The response stream of one \<open>sendMessageStream\<close> call: the \<open>text\<close> of every chunk
  in arrival order (empty for a chunk without text), and how the stream ends: \<open>None\<close>
  when it completes, the message of the error when it fails (after the chunks; a call
  that fails before any chunk has no chunks).
\<close>

record stream =
  chunks :: "string list"
  failure :: "string option"

text \<open>
  The mutable state of the program: the React state and ref of \<open>App\<close>, the text of
  the \<open>ChatInput\<close> field, the module variable \<open>currentChat\<close> of the service, and
  three logs of what the program did to its surroundings (sessions created, requests
  sent on a session, key selection dialogs opened).
\<close>

record world =
  messages :: "ChatMessage list"
  isLoading :: bool
  error :: "string option"
  travelPlan :: "TravelPlan option"
  chatRef :: "Chat option"
  input :: string
  currentChat :: "Chat option"
  chatsCreated :: nat
  requests :: "(Chat \<times> string) list"
  keyPrompts :: nat

text \<open>
  \<open>initGeminiChat\<close>: throws without an API key; otherwise drops the current session
  and creates a new one (the library call may throw).
\<close>

definition initGeminiChat :: "env \<Rightarrow> world \<Rightarrow> (string + Chat) \<times> world" where
  "initGeminiChat e w =
     (if API_KEY e = [] then (Inl ''Gemini API Key is not set in environment variables.'', w)
      else case createError e of
        Some m \<Rightarrow> (Inl m, w\<lparr>currentChat := None\<rparr>)
      | None \<Rightarrow>
          (Inr (chatsCreated w),
           w\<lparr>currentChat := Some (chatsCreated w), chatsCreated := Suc (chatsCreated w)\<rparr>))"

text \<open>
  The \<open>for await\<close> loop of \<open>sendMessage\<close> over the chunks still to come, from the
  response accumulated so far: a chunk with text is appended to the response and handed
  to the callback; a chunk without text is skipped. The loop reads neither
  \<open>currentChat\<close> nor anything else of the session it was started on.
\<close>

fun forAwait ::
  "(string \<Rightarrow> world \<Rightarrow> world) \<Rightarrow> string list \<Rightarrow> string \<times> world \<Rightarrow> string \<times> world" where
  "forAwait onChunk [] (fullResponse, w) = (fullResponse, w)"
| "forAwait onChunk (textChunk # rest) (fullResponse, w) =
     (if textChunk \<noteq> []
      then forAwait onChunk rest (fullResponse @ textChunk, onChunk textChunk w)
      else forAwait onChunk rest (fullResponse, w))"

text \<open>
  \<open>sendMessage\<close>: \<open>Inl\<close> is the message of the error thrown, \<open>Inr\<close> the full response
  returned. The \<open>history\<close> parameter is there as in the source.
\<close>

definition sendMessage ::
  "env \<Rightarrow> stream \<Rightarrow> string \<Rightarrow> ChatMessage list \<Rightarrow> (string \<Rightarrow> world \<Rightarrow> world) \<Rightarrow> world
    \<Rightarrow> (string + string) \<times> world" where
  "sendMessage e strm message history onChunk w =
     (case currentChat w of
        None \<Rightarrow>
          (Inl ''Gemini chat session is not initialized. Please call initGeminiChat first.'', w)
      | Some chat \<Rightarrow>
          (case forAwait onChunk (chunks strm)
                  ([], w\<lparr>requests := requests w @ [(chat, message)]\<rparr>) of
             (fullResponse, w') \<Rightarrow>
               (case failure strm of
                  None \<Rightarrow> (Inr fullResponse, w')
                | Some m \<Rightarrow>
                    if m \<noteq> [] \<and> str_includes m ''Requested entity was not found.''
                       \<and> openSelectKey e
                    then (Inl (''API key might be invalid or project not configured. '' @
                               ''Please try again after selecting API key.''),
                          w'\<lparr>keyPrompts := Suc (keyPrompts w')\<rparr>)
                    else (Inl (''Failed to get response from Gemini: '' @
                               (if m \<noteq> [] then m else ''Unknown error'')), w'))))"

section \<open>App.tsx\<close>

text \<open>The three Korean messages of \<open>App\<close>: no session yet, and the two fallbacks.\<close>

definition notInitializedMessage :: string where
  "notInitializedMessage =
     [CHR 0xEC, CHR 0xB1, CHR 0x84, CHR 0xED, CHR 0x8C, CHR 0x85, CHR 0x20, CHR 0xEC, CHR 0x84,
      CHR 0xB8, CHR 0xEC, CHR 0x85, CHR 0x98, CHR 0xEC, CHR 0x9D, CHR 0xB4, CHR 0x20, CHR 0xEC,
      CHR 0xB4, CHR 0x88, CHR 0xEA, CHR 0xB8, CHR 0xB0, CHR 0xED, CHR 0x99, CHR 0x94, CHR 0xEB,
      CHR 0x90, CHR 0x98, CHR 0xEC, CHR 0xA7, CHR 0x80, CHR 0x20, CHR 0xEC, CHR 0x95, CHR 0x8A,
      CHR 0xEC, CHR 0x95, CHR 0x98, CHR 0xEC, CHR 0x8A, CHR 0xB5, CHR 0xEB, CHR 0x8B, CHR 0x88,
      CHR 0xEB, CHR 0x8B, CHR 0xA4, CHR 0x2E]"

definition initFallbackMessage :: string where
  "initFallbackMessage =
     [CHR 0xEC, CHR 0xB1, CHR 0x84, CHR 0xED, CHR 0x8C, CHR 0x85, CHR 0x20, CHR 0xEC, CHR 0x84,
      CHR 0xB8, CHR 0xEC, CHR 0x85, CHR 0x98, CHR 0xEC, CHR 0x9D, CHR 0x84, CHR 0x20, CHR 0xEC,
      CHR 0x8B, CHR 0x9C, CHR 0xEC, CHR 0x9E, CHR 0x91, CHR 0xED, CHR 0x95, CHR 0x98, CHR 0xEA,
      CHR 0xB1, CHR 0xB0, CHR 0xEB, CHR 0x82, CHR 0x98, CHR 0x20, CHR 0xEC, CHR 0xB4, CHR 0x88,
      CHR 0xEA, CHR 0xB8, CHR 0xB0, CHR 0x20, CHR 0xEB, CHR 0xA9, CHR 0x94, CHR 0xEC, CHR 0x8B,
      CHR 0x9C, CHR 0xEC, CHR 0xA7, CHR 0x80, CHR 0xEB, CHR 0xA5, CHR 0xBC, CHR 0x20, CHR 0xEB,
      CHR 0xB3, CHR 0xB4, CHR 0xEB, CHR 0x82, CHR 0xB4, CHR 0xEB, CHR 0x8A, CHR 0x94, CHR 0x20,
      CHR 0xEB, CHR 0x8D, CHR 0xB0, CHR 0x20, CHR 0xEC, CHR 0x8B, CHR 0xA4, CHR 0xED, CHR 0x8C,
      CHR 0xA8, CHR 0xED, CHR 0x96, CHR 0x88, CHR 0xEC, CHR 0x8A, CHR 0xB5, CHR 0xEB, CHR 0x8B,
      CHR 0x88, CHR 0xEB, CHR 0x8B, CHR 0xA4, CHR 0x2E]"

definition sendFallbackMessage :: string where
  "sendFallbackMessage =
     [CHR 0xEB, CHR 0xA9, CHR 0x94, CHR 0xEC, CHR 0x8B, CHR 0x9C, CHR 0xEC, CHR 0xA7, CHR 0x80,
      CHR 0xEB, CHR 0xA5, CHR 0xBC, CHR 0x20, CHR 0xEB, CHR 0xB3, CHR 0xB4, CHR 0xEB, CHR 0x82,
      CHR 0xB4, CHR 0xEB, CHR 0x8A, CHR 0x94, CHR 0x20, CHR 0xEB, CHR 0x8D, CHR 0xB0, CHR 0x20,
      CHR 0xEC, CHR 0x8B, CHR 0xA4, CHR 0xED, CHR 0x8C, CHR 0xA8, CHR 0xED, CHR 0x96, CHR 0x88,
      CHR 0xEC, CHR 0x8A, CHR 0xB5, CHR 0xEB, CHR 0x8B, CHR 0x88, CHR 0xEB, CHR 0x8B, CHR 0xA4,
      CHR 0x2E]"

definition ensureApiKeySelected :: "env \<Rightarrow> world \<Rightarrow> world" where
  "ensureApiKeySelected e w =
     (case hasSelectedApiKey e of
        Some hasKey \<Rightarrow>
          if openSelectKey e \<and> \<not> hasKey then w\<lparr>keyPrompts := Suc (keyPrompts w)\<rparr> else w
      | None \<Rightarrow> w)"

text \<open>
  The state update of \<open>onChunkReceived\<close> (the same in \<open>initializeChatSession\<close> and in
  \<open>handleSendMessage\<close>): the chunk goes to the end of the last message when that is a
  model message, and into a new model message otherwise. \<open>prevMessages[length - 1]\<close>
  is undefined on the empty history.
\<close>

definition appendChunk :: "string \<Rightarrow> ChatMessage list \<Rightarrow> ChatMessage list" where
  "appendChunk chunk prevMessages =
     (case (if prevMessages = [] then None
            else Some (prevMessages ! (length prevMessages - 1))) of
        Some lastMessage \<Rightarrow>
          if role lastMessage = Model
          then map (\<lambda>(idx, msg).
                      if idx = length prevMessages - 1
                      then msg\<lparr>content := content msg @ chunk\<rparr> else msg)
                 (zip [0..<length prevMessages] prevMessages)
          else prevMessages @ [\<lparr>role = Model, content = chunk\<rparr>]
      | None \<Rightarrow> prevMessages @ [\<lparr>role = Model, content = chunk\<rparr>])"

definition onChunkReceived :: "string \<Rightarrow> world \<Rightarrow> world" where
  "onChunkReceived chunk w = w\<lparr>messages := appendChunk chunk (messages w)\<rparr>"

text \<open>The \<open>catch\<close> block of both handlers, with the fallback message of each.\<close>

definition catchBlock :: "string \<Rightarrow> string \<Rightarrow> world \<Rightarrow> world" where
  "catchBlock fallback msg w =
     (if msg \<noteq> [] \<and> str_includes msg ''API key''
      then w\<lparr>error := Some (if msg \<noteq> [] then msg else fallback), travelPlan := None\<rparr>
      else w\<lparr>error := Some (if msg \<noteq> [] then msg else fallback)\<rparr>)"

definition initializeChatSession :: "env \<Rightarrow> stream \<Rightarrow> TravelPlan \<Rightarrow> world \<Rightarrow> world" where
  "initializeChatSession e strm plan w =
     (case initGeminiChat e (ensureApiKeySelected e (w\<lparr>isLoading := True, error := None\<rparr>)) of
        (Inl msg, w') \<Rightarrow> (catchBlock initFallbackMessage msg w')\<lparr>isLoading := False\<rparr>
      | (Inr chat, w') \<Rightarrow>
          (case sendMessage e strm (initialPrompt plan)
                  [\<lparr>role = User, content = initialPrompt plan\<rparr>] onChunkReceived
                  (w'\<lparr>chatRef := Some chat, travelPlan := Some plan,
                      messages := [\<lparr>role = User, content = initialPrompt plan\<rparr>]\<rparr>) of
             (Inl msg, w'') \<Rightarrow> (catchBlock initFallbackMessage msg w'')\<lparr>isLoading := False\<rparr>
           | (Inr fullResponse, w'') \<Rightarrow> w''\<lparr>isLoading := False\<rparr>))"

definition handleSendMessage :: "env \<Rightarrow> stream \<Rightarrow> string \<Rightarrow> world \<Rightarrow> world" where
  "handleSendMessage e strm txt w =
     (case chatRef w of
        None \<Rightarrow> w\<lparr>error := Some notInitializedMessage\<rparr>
      | Some chat \<Rightarrow>
          (case sendMessage e strm txt (messages w) onChunkReceived
                  (w\<lparr>messages := messages w @ [\<lparr>role = User, content = txt\<rparr>],
                     isLoading := True, error := None\<rparr>) of
             (Inl msg, w') \<Rightarrow> (catchBlock sendFallbackMessage msg w')\<lparr>isLoading := False\<rparr>
           | (Inr fullResponse, w') \<Rightarrow> w'\<lparr>isLoading := False\<rparr>))"

definition handleRetry :: "env \<Rightarrow> stream \<Rightarrow> world \<Rightarrow> world" where
  "handleRetry e strm w =
     (case travelPlan w of
        Some plan \<Rightarrow> initializeChatSession e strm plan (w\<lparr>error := None\<rparr>)
      | None \<Rightarrow> w\<lparr>error := None, travelPlan := None, messages := []\<rparr>)"

section \<open>components/ChatInput.tsx\<close>

text \<open>
  \<open>handleSubmit\<close>: the text of the field is sent when it is not blank and no turn is
  loading, and the field is cleared; otherwise nothing happens.
\<close>

definition handleSubmit :: "env \<Rightarrow> stream \<Rightarrow> world \<Rightarrow> world" where
  "handleSubmit e strm w =
     (if str_trim (input w) \<noteq> [] \<and> \<not> isLoading w
      then (handleSendMessage e strm (input w) w)\<lparr>input := []\<rparr>
      else w)"

section \<open>Vocabulary of the statements\<close>

text \<open>The chunks that the loop of \<open>sendMessage\<close> hands to its callback: those with text.\<close>

definition delivered :: "string list \<Rightarrow> string list" where
  "delivered cs = filter (\<lambda>textChunk. textChunk \<noteq> []) cs"

text \<open>
  The reply of a turn as the specification phrases it: no message for no fragment,
  otherwise one model message holding the fragments in order.
\<close>

definition modelTurn :: "string list \<Rightarrow> ChatMessage list" where
  "modelTurn fs = (if fs = [] then [] else [\<lparr>role = Model, content = concat fs\<rparr>])"

text \<open>The message with which \<open>sendMessage\<close> rethrows a stream failure of message \<open>m\<close>.\<close>

definition thrownMessage :: "env \<Rightarrow> string \<Rightarrow> string" where
  "thrownMessage e m =
     (if m \<noteq> [] \<and> str_includes m ''Requested entity was not found.'' \<and> openSelectKey e
      then ''API key might be invalid or project not configured. '' @
           ''Please try again after selecting API key.''
      else ''Failed to get response from Gemini: '' @ (if m \<noteq> [] then m else ''Unknown error''))"

section \<open>Concrete runs\<close>

text \<open>The state of the program when it is mounted.\<close>

definition world0 :: world where
  "world0 =
     \<lparr>messages = [], isLoading = False, error = None, travelPlan = None, chatRef = None,
      input = [], currentChat = None, chatsCreated = 0, requests = [], keyPrompts = 0\<rparr>"

text \<open>
  Surroundings: a healthy one outside AI Studio, one inside AI Studio (a key is
  selected, the dialog exists), one in which the library cannot create a session, and
  one without an API key.
\<close>

definition env_plain :: env where
  "env_plain =
     \<lparr>API_KEY = ''k'', createError = None, hasSelectedApiKey = None, openSelectKey = False\<rparr>"

definition env_studio :: env where
  "env_studio =
     \<lparr>API_KEY = ''k'', createError = None, hasSelectedApiKey = Some True,
      openSelectKey = True\<rparr>"

definition env_down :: env where
  "env_down =
     \<lparr>API_KEY = ''k'', createError = Some ''fetch failed'', hasSelectedApiKey = None,
      openSelectKey = False\<rparr>"

definition env_nokey :: env where
  "env_nokey =
     \<lparr>API_KEY = [], createError = None, hasSelectedApiKey = None, openSelectKey = False\<rparr>"

definition tokyoPlan :: TravelPlan where
  "tokyoPlan =
     \<lparr>destination = ''Tokyo'', travelDates = ''3/1-3/5'', travelers = 2,
      totalBudget = 500000, travelStyle = ''backpacking'', specialInterests = ''food''\<rparr>"

definition osakaPlan :: TravelPlan where
  "osakaPlan = tokyoPlan\<lparr>destination := ''Osaka''\<rparr>"

definition vegasPlan :: TravelPlan where
  "vegasPlan = tokyoPlan\<lparr>destination := ''Las Vegas $$''\<rparr>"

definition hello_stream :: stream where
  "hello_stream = \<lparr>chunks = [''Hel'', [], ''lo!''], failure = None\<rparr>"

definition silent_stream :: stream where
  "silent_stream = \<lparr>chunks = [], failure = None\<rparr>"

definition broken_stream :: stream where
  "broken_stream = \<lparr>chunks = [''Sure, ''], failure = Some ''network error''\<rparr>"

definition again_stream :: stream where
  "again_stream = \<lparr>chunks = [''Again''], failure = None\<rparr>"

definition notfound_stream :: stream where
  "notfound_stream = \<lparr>chunks = [], failure = Some ''Requested entity was not found.''\<rparr>"

definition badkey_stream :: stream where
  "badkey_stream =
     \<lparr>chunks = [], failure = Some ''API key not valid. Please pass a valid API key.''\<rparr>"

text \<open>A first start that succeeds, a second turn that fails, and a retry.\<close>

definition w_started :: world where
  "w_started = initializeChatSession env_plain hello_stream tokyoPlan world0"

definition w_failed :: world where
  "w_failed = handleSendMessage env_plain broken_stream ''Any cheap flights?'' w_started"

definition w_retried :: world where
  "w_retried = handleRetry env_plain again_stream w_failed"

text \<open>
  A turn in flight: the state of \<open>w_started\<close> before its stream has ended, with only
  the first fragment folded, and with a text typed into the input field.
\<close>

definition w_inflight :: world where
  "w_inflight =
     \<lparr>messages = [\<lparr>role = User, content = initialPrompt tokyoPlan\<rparr>,
                  \<lparr>role = Model, content = ''Hel''\<rparr>],
      isLoading = True, error = None, travelPlan = Some tokyoPlan, chatRef = Some 0,
      input = ''Any cheap flights?'', currentChat = Some 0, chatsCreated = 1,
      requests = [(0, initialPrompt tokyoPlan)], keyPrompts = 0\<rparr>"

text \<open>
  A new start while that turn is in flight, run to its end; then the fragment that
  the first stream still had to deliver arrives (one more round of its loop, whose
  response so far is \<open>Hel\<close>).
\<close>

definition w_superseded :: world where
  "w_superseded = initializeChatSession env_plain again_stream osakaPlan w_inflight"

definition w_stale :: world where
  "w_stale = snd (forAwait onChunkReceived [''lo!''] (''Hel'', w_superseded))"

text \<open>A first start on which the session cannot be created, and a retry once it can.\<close>

definition w_initfail :: world where
  "w_initfail = initializeChatSession env_down hello_stream tokyoPlan world0"

definition w_initretry :: world where
  "w_initretry = handleRetry env_plain hello_stream w_initfail"

text \<open>
  A retry after the failed send on which the session cannot be created: the handle of
  the first session stays with the application, but the service holds no session.
\<close>

definition w_retryfail :: world where
  "w_retryfail = handleRetry env_down again_stream w_failed"

text \<open>
  The started chat with a text typed into the input field: a question, and the
  ideographic space U+3000 alone.
\<close>

definition w_typed :: world where
  "w_typed = w_failed\<lparr>input := ''And hotels?''\<rparr>"

definition w_blank :: world where
  "w_blank = w_started\<lparr>input := [CHR 0xE3, CHR 0x80, CHR 0x80]\<rparr>"

text \<open>A first start without an API key, and a retry.\<close>

definition w_nokey :: world where
  "w_nokey = initializeChatSession env_nokey hello_stream tokyoPlan world0"

definition w_nokeyretry :: world where
  "w_nokeyretry = handleRetry env_nokey hello_stream w_nokey"



section \<open>Facts about the string operations\<close>

lemma indexOf_first_token:
  "c \<notin> set a \<Longrightarrow> indexOf (a @ c # k @ b) (c # k) = Some (length a)"
  by (induction a) auto

lemma getSubstitution_no_dollar:
  "CHR ''$'' \<notin> set v \<Longrightarrow> getSubstitution m s p v = v"
  by (induction m s p v rule: getSubstitution.induct) auto

lemma str_replace_token:
  "c \<notin> set a \<Longrightarrow>
   str_replace (a @ c # k @ b) (c # k) v =
     a @ getSubstitution (c # k) (a @ c # k @ b) (length a) v @ b"
  by (simp add: str_replace_def indexOf_first_token)

lemma str_replace_plain:
  "c \<notin> set a \<Longrightarrow> CHR ''$'' \<notin> set v \<Longrightarrow>
   str_replace (a @ c # k @ b) (c # k) v = a @ v @ b"
  by (simp add: str_replace_token getSubstitution_no_dollar)

lemma digit_plain: "d < 10 \<Longrightarrow> digit d \<in> set ''0123456789''"
  unfolding digit_def by (rule nth_mem) simp

lemma String_of_number_digits: "set (String_of_number n) \<subseteq> set ''0123456789''"
proof (induction n rule: String_of_number.induct)
  case (1 n)
  show ?case
  proof (cases "n < 10")
    case True
    then show ?thesis
      using digit_plain [of n] by (subst String_of_number.simps) simp
  next
    case False
    have "n mod 10 < 10" by simp
    then have "digit (n mod 10) \<in> set ''0123456789''" by (rule digit_plain)
    with False "1.IH" show ?thesis
      by (subst String_of_number.simps) simp
  qed
qed

lemma String_of_number_plain: "plainText (String_of_number n)"
  using String_of_number_digits [of n] by (auto simp: plainText_def)

lemma tmpl_no_brace:
  "CHR ''{'' \<notin> set tmpl_opening"
  "CHR ''{'' \<notin> set tmpl_dates_label"
  "CHR ''{'' \<notin> set tmpl_travelers_label"
  "CHR ''{'' \<notin> set tmpl_budget_label"
  "CHR ''{'' \<notin> set tmpl_style_label"
  "CHR ''{'' \<notin> set tmpl_interests_label"
  by (simp_all add: tmpl_opening_def tmpl_dates_label_def tmpl_travelers_label_def
      tmpl_budget_label_def tmpl_style_label_def tmpl_interests_label_def)

text \<open>
  The five substitutions after the first, on a text whose part before the second
  placeholder holds no brace: each placeholder is the first one left, and a plain
  field replaces it as it is.
\<close>

lemma render_after_destination:
  assumes A: "CHR ''{'' \<notin> set A"
    and p2: "plainText (travelDates plan)"
    and p5: "plainText (travelStyle plan)"
    and p6: "CHR ''$'' \<notin> set (specialInterests plan)"
  shows "foldl (\<lambda>p (key, v). str_replace p (''{'' @ key @ ''}'') v)
           (A @ tmpl_dates_label @ ''{travelDates}'' @ tmpl_travelers_label @
            ''{travelers}'' @ tmpl_budget_label @ ''{totalBudget}'' @ tmpl_style_label @
            ''{travelStyle}'' @ tmpl_interests_label @ ''{specialInterests}'' @ tmpl_closing)
           (tl (plan_entries plan)) =
         A @ tmpl_dates_label @ travelDates plan @
         tmpl_travelers_label @ String_of_number (travelers plan) @
         tmpl_budget_label @ String_of_number (totalBudget plan) @
         tmpl_style_label @ travelStyle plan @
         tmpl_interests_label @ specialInterests plan @ tmpl_closing"
proof -
  let ?v2 = "travelDates plan" and ?v3 = "String_of_number (travelers plan)"
    and ?v4 = "String_of_number (totalBudget plan)" and ?v5 = "travelStyle plan"
    and ?v6 = "specialInterests plan"
  let ?R3 = "tmpl_budget_label @ ''{totalBudget}'' @ tmpl_style_label @
            ''{travelStyle}'' @ tmpl_interests_label @ ''{specialInterests}'' @ tmpl_closing"
  let ?R4 = "tmpl_style_label @
            ''{travelStyle}'' @ tmpl_interests_label @ ''{specialInterests}'' @ tmpl_closing"
  let ?R5 = "tmpl_interests_label @ ''{specialInterests}'' @ tmpl_closing"
  let ?A2 = "A @ tmpl_dates_label"
  let ?A3 = "?A2 @ ?v2 @ tmpl_travelers_label"
  let ?A4 = "?A3 @ ?v3 @ tmpl_budget_label"
  let ?A5 = "?A4 @ ?v4 @ tmpl_style_label"
  let ?A6 = "?A5 @ ?v5 @ tmpl_interests_label"
  have p3: "plainText ?v3" and p4: "plainText ?v4"
    by (rule String_of_number_plain)+
  have b2: "CHR ''{'' \<notin> set ?A2" using A by (simp add: tmpl_no_brace)
  have b3: "CHR ''{'' \<notin> set ?A3" using b2 p2 by (simp add: tmpl_no_brace plainText_def)
  have b4: "CHR ''{'' \<notin> set ?A4" using b3 p3 by (simp add: tmpl_no_brace plainText_def)
  have b5: "CHR ''{'' \<notin> set ?A5" using b4 p4 by (simp add: tmpl_no_brace plainText_def)
  have b6: "CHR ''{'' \<notin> set ?A6" using b5 p5 by (simp add: tmpl_no_brace plainText_def)
  have s2: "str_replace (?A2 @ ''{travelDates}'' @ tmpl_travelers_label @ ''{travelers}'' @ ?R3)
              ''{travelDates}'' ?v2 = ?A2 @ ?v2 @ tmpl_travelers_label @ ''{travelers}'' @ ?R3"
    using b2 p2
      str_replace_plain [where c = "CHR ''{''" and a = ?A2 and v = ?v2
        and k = "''travelDates}''" and b = "tmpl_travelers_label @ ''{travelers}'' @ ?R3"]
    by (simp add: plainText_def)
  have s3: "str_replace (?A3 @ ''{travelers}'' @ ?R3) ''{travelers}'' ?v3 = ?A3 @ ?v3 @ ?R3"
    using b3 p3
      str_replace_plain [where c = "CHR ''{''" and a = ?A3 and v = ?v3
        and k = "''travelers}''" and b = ?R3]
    by (simp add: plainText_def)
  have s4: "str_replace (?A4 @ ''{totalBudget}'' @ ?R4) ''{totalBudget}'' ?v4 = ?A4 @ ?v4 @ ?R4"
    using b4 p4
      str_replace_plain [where c = "CHR ''{''" and a = ?A4 and v = ?v4
        and k = "''totalBudget}''" and b = ?R4]
    by (simp add: plainText_def)
  have s5: "str_replace (?A5 @ ''{travelStyle}'' @ ?R5) ''{travelStyle}'' ?v5 = ?A5 @ ?v5 @ ?R5"
    using b5 p5
      str_replace_plain [where c = "CHR ''{''" and a = ?A5 and v = ?v5
        and k = "''travelStyle}''" and b = ?R5]
    by (simp add: plainText_def)
  have s6: "str_replace (?A6 @ ''{specialInterests}'' @ tmpl_closing) ''{specialInterests}'' ?v6
              = ?A6 @ ?v6 @ tmpl_closing"
    using b6 p6
      str_replace_plain [where c = "CHR ''{''" and a = ?A6 and v = ?v6
        and k = "''specialInterests}''" and b = tmpl_closing]
    by simp
  show ?thesis
    using s2 s3 s4 s5 s6 by (simp add: plan_entries_def)
qed

section \<open>The rendering of the bootstrap utterance\<close>

lemma first_substitution:
  "str_replace INITIAL_PROMPT_TEMPLATE ''{destination}'' v =
     tmpl_opening @
     getSubstitution ''{destination}'' INITIAL_PROMPT_TEMPLATE (length tmpl_opening) v @
     tmpl_dates_label @ ''{travelDates}'' @ tmpl_travelers_label @
     ''{travelers}'' @ tmpl_budget_label @ ''{totalBudget}'' @ tmpl_style_label @
     ''{travelStyle}'' @ tmpl_interests_label @ ''{specialInterests}'' @ tmpl_closing"
proof -
  let ?R = "tmpl_dates_label @ ''{travelDates}'' @ tmpl_travelers_label @
     ''{travelers}'' @ tmpl_budget_label @ ''{totalBudget}'' @ tmpl_style_label @
     ''{travelStyle}'' @ tmpl_interests_label @ ''{specialInterests}'' @ tmpl_closing"
  have T: "INITIAL_PROMPT_TEMPLATE = tmpl_opening @ CHR ''{'' # ''destination}'' @ ?R"
    by (simp add: INITIAL_PROMPT_TEMPLATE_def)
  show ?thesis
    using str_replace_token [where c = "CHR ''{''" and a = tmpl_opening and v = v
        and k = "''destination}''" and b = ?R] tmpl_no_brace(1)
    unfolding T [symmetric] by simp
qed

lemma initialPrompt_unfold:
  "initialPrompt plan =
     foldl (\<lambda>p (key, v). str_replace p (''{'' @ key @ ''}'') v)
       (str_replace INITIAL_PROMPT_TEMPLATE ''{destination}'' (destination plan))
       (tl (plan_entries plan))"
  by (simp add: initialPrompt_def plan_entries_def)

text \<open>
  On a plan whose texts hold no dollar sign and no opening brace, the loop is the
  literal substitution of the specification.
\<close>

lemma initialPrompt_literal:
  assumes "plainText (destination plan)" and "plainText (travelDates plan)"
    and "plainText (travelStyle plan)" and "plainText (specialInterests plan)"
  shows "initialPrompt plan = literalPrompt plan"
proof -
  have A: "CHR ''{'' \<notin> set (tmpl_opening @ destination plan)"
    using assms(1) by (simp add: tmpl_no_brace plainText_def)
  have d: "getSubstitution ''{destination}'' INITIAL_PROMPT_TEMPLATE (length tmpl_opening)
             (destination plan) = destination plan"
    using assms(1) by (simp add: getSubstitution_no_dollar plainText_def)
  have p6: "CHR ''$'' \<notin> set (specialInterests plan)"
    using assms(4) by (simp add: plainText_def)
  show ?thesis
    using render_after_destination [OF A assms(2) assms(3) p6]
    by (simp add: initialPrompt_unfold first_substitution d literalPrompt_def)
qed

lemma tokyoPlan_plain:
  "plainText (destination tokyoPlan)" "plainText (travelDates tokyoPlan)"
  "plainText (travelStyle tokyoPlan)" "plainText (specialInterests tokyoPlan)"
  by (simp_all add: tokyoPlan_def plainText_def)

text \<open>
  The example of the specification, on the keys of the source: the rendered utterance
  is the template with the six values in place of the six placeholders, the two
  numbers in plain decimal digits, and no brace is left in it.
\<close>

lemma tokyo_prompt:
  "initialPrompt tokyoPlan =
     tmpl_opening @ ''Tokyo'' @ tmpl_dates_label @ ''3/1-3/5'' @
     tmpl_travelers_label @ ''2'' @ tmpl_budget_label @ ''500000'' @
     tmpl_style_label @ ''backpacking'' @ tmpl_interests_label @ ''food'' @ tmpl_closing"
proof -
  have n: "String_of_number 2 = ''2''" "String_of_number 500000 = ''500000''"
    by (simp_all add: String_of_number.simps digit_def)
  show ?thesis
    using initialPrompt_literal [OF tokyoPlan_plain] n
    by (simp add: literalPrompt_def tokyoPlan_def)
qed

lemma tokyo_prompt_no_token:
  "CHR ''{'' \<notin> set (initialPrompt tokyoPlan)" "CHR ''}'' \<notin> set (initialPrompt tokyoPlan)"
  unfolding tokyo_prompt
  by (simp_all add: tmpl_opening_def tmpl_dates_label_def tmpl_travelers_label_def
      tmpl_budget_label_def tmpl_style_label_def tmpl_interests_label_def tmpl_closing_def)

section \<open>The fold of fragments into the history\<close>

lemma appendChunk_Nil: "appendChunk c [] = [\<lparr>role = Model, content = c\<rparr>]"
  by (simp add: appendChunk_def)

lemma map_zip_other:
  "length hs \<le> n \<Longrightarrow>
   map (\<lambda>(idx, msg). if idx = n then f msg else msg) (zip [0..<length hs] hs) = hs"
  by (rule nth_equalityI) auto

lemma appendChunk_snoc:
  "appendChunk c (hs @ [m]) =
     (if role m = Model then hs @ [m\<lparr>content := content m @ c\<rparr>]
      else hs @ [m, \<lparr>role = Model, content = c\<rparr>])"
  by (simp add: appendChunk_def map_zip_other)

lemma appendChunk_single:
  "appendChunk c [m] =
     (if role m = Model then [m\<lparr>content := content m @ c\<rparr>]
      else [m, \<lparr>role = Model, content = c\<rparr>])"
  using appendChunk_snoc [of c "[]" m] by simp

lemma appendChunk_Cons: "appendChunk c (x # y # ys) = x # appendChunk c (y # ys)"
proof -
  obtain hs m where hs: "y # ys = hs @ [m]"
    by (metis list.distinct(1) rev_exhaust)
  have "appendChunk c (x # y # ys) = appendChunk c ((x # hs) @ [m])"
    using hs by simp
  also have "\<dots> = x # appendChunk c (hs @ [m])"
    by (simp only: appendChunk_snoc) simp
  finally show ?thesis using hs by simp
qed

lemma fold_after_model:
  "foldl (\<lambda>h c. appendChunk c h) (hs @ [\<lparr>role = Model, content = acc\<rparr>]) ds =
     hs @ [\<lparr>role = Model, content = acc @ concat ds\<rparr>]"
  by (induction ds arbitrary: acc) (simp_all add: appendChunk_snoc)

lemma fold_after_user:
  assumes "role m = User"
  shows "foldl (\<lambda>h c. appendChunk c h) (hs @ [m]) ds = hs @ [m] @ modelTurn ds"
proof (cases ds)
  case Nil
  then show ?thesis by (simp add: modelTurn_def)
next
  case (Cons d ds')
  from assms have "appendChunk d (hs @ [m]) = (hs @ [m]) @ [\<lparr>role = Model, content = d\<rparr>]"
    by (simp add: appendChunk_snoc)
  then show ?thesis
    using Cons fold_after_model [of "hs @ [m]" d ds'] by (simp add: modelTurn_def)
qed

lemma concat_delivered: "concat (delivered cs) = concat cs"
  by (induction cs) (simp_all add: delivered_def)

lemma forAwait_onChunkReceived:
  "forAwait onChunkReceived cs (full, w) =
     (full @ concat cs,
      w\<lparr>messages := foldl (\<lambda>h c. appendChunk c h) (messages w) (delivered cs)\<rparr>)"
  by (induction cs arbitrary: full w) (simp_all add: delivered_def onChunkReceived_def)

section \<open>The handlers, field by field\<close>

lemma thrownMessage_nonempty: "thrownMessage e m \<noteq> []"
  by (simp add: thrownMessage_def)

text \<open>The turn algorithm from a history that ends with a user message.\<close>

lemma sendMessage_turn:
  assumes "currentChat w = Some chat" and "messages w = hs @ [u]" and "role u = User"
  shows "sendMessage e strm utterance history onChunkReceived w =
     (case failure strm of
        None \<Rightarrow> Inr (concat (chunks strm))
      | Some m \<Rightarrow> Inl (thrownMessage e m),
      w\<lparr>requests := requests w @ [(chat, utterance)],
         messages := hs @ [u] @ modelTurn (delivered (chunks strm)),
         keyPrompts :=
           (case failure strm of
              None \<Rightarrow> keyPrompts w
            | Some m \<Rightarrow>
                if m \<noteq> [] \<and> str_includes m ''Requested entity was not found.''
                   \<and> openSelectKey e
                then Suc (keyPrompts w) else keyPrompts w)\<rparr>)"
  using assms fold_after_user [of u hs "delivered (chunks strm)"]
  by (simp add: sendMessage_def forAwait_onChunkReceived thrownMessage_def
      split: option.splits)

lemma handleSendMessage_run:
  assumes "chatRef w = Some c" and "currentChat w = Some chat"
  shows "handleSendMessage e strm txt w =
     (case failure strm of
        None \<Rightarrow>
          w\<lparr>messages := messages w @ [\<lparr>role = User, content = txt\<rparr>] @
                         modelTurn (delivered (chunks strm)),
             isLoading := False, error := None,
             requests := requests w @ [(chat, txt)]\<rparr>
      | Some m \<Rightarrow>
          w\<lparr>messages := messages w @ [\<lparr>role = User, content = txt\<rparr>] @
                         modelTurn (delivered (chunks strm)),
             isLoading := False, error := Some (thrownMessage e m),
             requests := requests w @ [(chat, txt)],
             travelPlan :=
               (if str_includes (thrownMessage e m) ''API key'' then None else travelPlan w),
             keyPrompts :=
               (if m \<noteq> [] \<and> str_includes m ''Requested entity was not found.''
                   \<and> openSelectKey e
                then Suc (keyPrompts w) else keyPrompts w)\<rparr>)"
proof -
  let ?u = "\<lparr>role = User, content = txt\<rparr>"
  let ?w = "w\<lparr>messages := messages w @ [?u], isLoading := True, error := None\<rparr>"
  have "sendMessage e strm txt (messages w) onChunkReceived ?w =
     (case failure strm of
        None \<Rightarrow> Inr (concat (chunks strm))
      | Some m \<Rightarrow> Inl (thrownMessage e m),
      ?w\<lparr>requests := requests ?w @ [(chat, txt)],
         messages := messages w @ [?u] @ modelTurn (delivered (chunks strm)),
         keyPrompts :=
           (case failure strm of
              None \<Rightarrow> keyPrompts ?w
            | Some m \<Rightarrow>
                if m \<noteq> [] \<and> str_includes m ''Requested entity was not found.''
                   \<and> openSelectKey e
                then Suc (keyPrompts ?w) else keyPrompts ?w)\<rparr>)"
    using assms(2) by (intro sendMessage_turn) simp_all
  then show ?thesis
    using assms(1) thrownMessage_nonempty [of e]
    by (cases "failure strm") (simp_all add: handleSendMessage_def catchBlock_def)
qed

lemma handleSendMessage_no_service_session:
  assumes "chatRef w = Some c" and "currentChat w = None"
  shows "messages (handleSendMessage e strm txt w) =
           messages w @ [\<lparr>role = User, content = txt\<rparr>]"
  using assms by (simp add: handleSendMessage_def sendMessage_def catchBlock_def)

text \<open>The session opens when there is an API key and the library creates the session.\<close>

lemma initializeChatSession_run:
  assumes "API_KEY e \<noteq> []" and "createError e = None"
  shows "initializeChatSession e strm plan w =
     (case failure strm of
        None \<Rightarrow>
          (ensureApiKeySelected e w)
           \<lparr>messages := [\<lparr>role = User, content = initialPrompt plan\<rparr>] @
                         modelTurn (delivered (chunks strm)),
             isLoading := False, error := None,
             travelPlan := Some plan,
             chatRef := Some (chatsCreated w), currentChat := Some (chatsCreated w),
             chatsCreated := Suc (chatsCreated w),
             requests := requests w @ [(chatsCreated w, initialPrompt plan)]\<rparr>
      | Some m \<Rightarrow>
          (ensureApiKeySelected e w)
           \<lparr>messages := [\<lparr>role = User, content = initialPrompt plan\<rparr>] @
                         modelTurn (delivered (chunks strm)),
             isLoading := False, error := Some (thrownMessage e m),
             travelPlan :=
               (if str_includes (thrownMessage e m) ''API key'' then None else Some plan),
             chatRef := Some (chatsCreated w), currentChat := Some (chatsCreated w),
             chatsCreated := Suc (chatsCreated w),
             requests := requests w @ [(chatsCreated w, initialPrompt plan)],
             keyPrompts :=
               (if m \<noteq> [] \<and> str_includes m ''Requested entity was not found.''
                   \<and> openSelectKey e
                then Suc (keyPrompts (ensureApiKeySelected e w))
                else keyPrompts (ensureApiKeySelected e w))\<rparr>)"
proof -
  let ?u = "\<lparr>role = User, content = initialPrompt plan\<rparr>"
  let ?w1 = "ensureApiKeySelected e (w\<lparr>isLoading := True, error := None\<rparr>)"
  let ?w2 = "?w1\<lparr>currentChat := Some (chatsCreated w),
                  chatsCreated := Suc (chatsCreated w)\<rparr>"
  let ?w3 = "?w2\<lparr>chatRef := Some (chatsCreated w), travelPlan := Some plan,
                  messages := [?u]\<rparr>"
  have fields: "chatsCreated ?w1 = chatsCreated w" "requests ?w1 = requests w"
    by (simp_all add: ensureApiKeySelected_def split: option.splits)
  have w1: "?w1 = (ensureApiKeySelected e w)\<lparr>isLoading := True, error := None\<rparr>"
    by (simp add: ensureApiKeySelected_def split: option.splits)
  have init: "initGeminiChat e ?w1 = (Inr (chatsCreated w), ?w2)"
    using assms fields by (simp add: initGeminiChat_def)
  have "sendMessage e strm (initialPrompt plan) [?u] onChunkReceived ?w3 =
     (case failure strm of
        None \<Rightarrow> Inr (concat (chunks strm))
      | Some m \<Rightarrow> Inl (thrownMessage e m),
      ?w3\<lparr>requests := requests ?w3 @ [(chatsCreated w, initialPrompt plan)],
          messages := [] @ [?u] @ modelTurn (delivered (chunks strm)),
          keyPrompts :=
           (case failure strm of
              None \<Rightarrow> keyPrompts ?w3
            | Some m \<Rightarrow>
                if m \<noteq> [] \<and> str_includes m ''Requested entity was not found.''
                   \<and> openSelectKey e
                then Suc (keyPrompts ?w3) else keyPrompts ?w3)\<rparr>)"
    by (intro sendMessage_turn) simp_all
  then show ?thesis
    using init fields thrownMessage_nonempty [of e]
    by (cases "failure strm")
       (simp_all add: initializeChatSession_def catchBlock_def w1)
qed

lemma initializeChatSession_not_opened:
  assumes "API_KEY e = [] \<or> createError e \<noteq> None"
  shows "messages (initializeChatSession e strm plan w) = messages w"
    and "requests (initializeChatSession e strm plan w) = requests w"
    and "chatRef (initializeChatSession e strm plan w) = chatRef w"
    and "travelPlan w = None \<Longrightarrow> travelPlan (initializeChatSession e strm plan w) = None"
    and "isLoading (initializeChatSession e strm plan w) = False"
    and "error (initializeChatSession e strm plan w) \<noteq> None"
  using assms
  by (auto simp: initializeChatSession_def initGeminiChat_def ensureApiKeySelected_def
      catchBlock_def split: option.splits)

lemmas run_simps =
  initializeChatSession_def handleSendMessage_def handleRetry_def handleSubmit_def
  sendMessage_def initGeminiChat_def ensureApiKeySelected_def catchBlock_def
  onChunkReceived_def appendChunk_Nil appendChunk_single appendChunk_Cons str_includes_def

lemmas scene_simps =
  world0_def env_plain_def env_studio_def env_down_def env_nokey_def hello_stream_def
  silent_stream_def
  broken_stream_def again_stream_def notfound_stream_def badkey_stream_def

section \<open>The concrete runs, evaluated\<close>

lemma w_started_eq:
  "w_started =
     \<lparr>messages = [\<lparr>role = User, content = initialPrompt tokyoPlan\<rparr>,
                  \<lparr>role = Model, content = ''Hello!''\<rparr>],
      isLoading = False, error = None, travelPlan = Some tokyoPlan, chatRef = Some 0,
      input = [], currentChat = Some 0, chatsCreated = 1,
      requests = [(0, initialPrompt tokyoPlan)], keyPrompts = 0\<rparr>"
  by (simp add: w_started_def run_simps scene_simps)

lemma w_failed_eq:
  "w_failed =
     \<lparr>messages = [\<lparr>role = User, content = initialPrompt tokyoPlan\<rparr>,
                  \<lparr>role = Model, content = ''Hello!''\<rparr>,
                  \<lparr>role = User, content = ''Any cheap flights?''\<rparr>,
                  \<lparr>role = Model, content = ''Sure, ''\<rparr>],
      isLoading = False, error = Some ''Failed to get response from Gemini: network error'',
      travelPlan = Some tokyoPlan, chatRef = Some 0,
      input = [], currentChat = Some 0, chatsCreated = 1,
      requests = [(0, initialPrompt tokyoPlan), (0, ''Any cheap flights?'')],
      keyPrompts = 0\<rparr>"
  by (simp add: w_failed_def w_started_eq run_simps scene_simps)

section \<open>C1: the fold of one turn\<close>

text \<open>
  C1. For any fragments that the stream of one turn delivers (the chunks with text, in
  arrival order), the turn adds to the history, after its user message, exactly one
  model message whose content is the concatenation of the fragments in that order, and
  no model message when no fragment was delivered. This holds for a turn sent on an
  open session and for the bootstrap turn of a start whose session opens.
\<close>

theorem turn_folds_into_one_model_message:
  "(chatRef w = Some c \<and> currentChat w = Some chat \<longrightarrow>
      messages (handleSendMessage e strm txt w) =
        messages w @ [\<lparr>role = User, content = txt\<rparr>] @
        (if delivered (chunks strm) = [] then []
         else [\<lparr>role = Model, content = concat (delivered (chunks strm))\<rparr>])) \<and>
   (API_KEY e \<noteq> [] \<and> createError e = None \<longrightarrow>
      messages (initializeChatSession e strm plan w) =
        [\<lparr>role = User, content = initialPrompt plan\<rparr>] @
        (if delivered (chunks strm) = [] then []
         else [\<lparr>role = Model, content = concat (delivered (chunks strm))\<rparr>]))"
proof (intro conjI impI)
  assume "chatRef w = Some c \<and> currentChat w = Some chat"
  then show "messages (handleSendMessage e strm txt w) =
        messages w @ [\<lparr>role = User, content = txt\<rparr>] @
        (if delivered (chunks strm) = [] then []
         else [\<lparr>role = Model, content = concat (delivered (chunks strm))\<rparr>])"
    by (cases "failure strm") (simp_all add: handleSendMessage_run modelTurn_def)
next
  assume "API_KEY e \<noteq> [] \<and> createError e = None"
  then show "messages (initializeChatSession e strm plan w) =
        [\<lparr>role = User, content = initialPrompt plan\<rparr>] @
        (if delivered (chunks strm) = [] then []
         else [\<lparr>role = Model, content = concat (delivered (chunks strm))\<rparr>])"
    by (cases "failure strm") (simp_all add: initializeChatSession_run modelTurn_def)
qed

theorem turn_folds_into_one_model_message_witness:
  "chatRef w_started = Some 0 \<and> currentChat w_started = Some 0 \<and>
   messages (handleSendMessage env_plain hello_stream ''Any cheap flights?'' w_started) =
     [\<lparr>role = User, content = initialPrompt tokyoPlan\<rparr>,
      \<lparr>role = Model, content = ''Hello!''\<rparr>,
      \<lparr>role = User, content = ''Any cheap flights?''\<rparr>,
      \<lparr>role = Model, content = ''Hello!''\<rparr>] \<and>
   messages (handleSendMessage env_plain silent_stream ''Any cheap flights?'' w_started) =
     [\<lparr>role = User, content = initialPrompt tokyoPlan\<rparr>,
      \<lparr>role = Model, content = ''Hello!''\<rparr>,
      \<lparr>role = User, content = ''Any cheap flights?''\<rparr>] \<and>
   API_KEY env_plain \<noteq> [] \<and> createError env_plain = None \<and>
   messages (initializeChatSession env_plain hello_stream tokyoPlan world0) =
     [\<lparr>role = User, content = initialPrompt tokyoPlan\<rparr>,
      \<lparr>role = Model, content = ''Hello!''\<rparr>]"
  using
    turn_folds_into_one_model_message [of w_started 0 0 env_plain hello_stream
      "''Any cheap flights?''" tokyoPlan]
    turn_folds_into_one_model_message [of w_started 0 0 env_plain silent_stream
      "''Any cheap flights?''" tokyoPlan]
    turn_folds_into_one_model_message [of world0 0 0 env_plain hello_stream "[]" tokyoPlan]
  by (simp add: w_started_eq scene_simps delivered_def)

section \<open>C2: retry after a failed send\<close>

text \<open>
  C2, as claimed: a retry after a failed send replays the last utterance and keeps the
  messages accumulated before the failure. The code does neither. After a start that
  answered \<open>Hello!\<close> and a send of \<open>Any cheap flights?\<close> whose stream failed after
  \<open>Sure, \<close>, the history has four messages and a session exists; the retry creates a
  second session, sends the bootstrap utterance on it, and leaves a history of two
  messages: the bootstrap user message and the new reply.
\<close>

theorem retry_replays_last_utterance_counterexample:
  "chatRef w_failed = Some 0 \<and>
   error w_failed = Some ''Failed to get response from Gemini: network error'' \<and>
   messages w_failed =
     [\<lparr>role = User, content = initialPrompt tokyoPlan\<rparr>,
      \<lparr>role = Model, content = ''Hello!''\<rparr>,
      \<lparr>role = User, content = ''Any cheap flights?''\<rparr>,
      \<lparr>role = Model, content = ''Sure, ''\<rparr>] \<and>
   messages w_retried =
     [\<lparr>role = User, content = initialPrompt tokyoPlan\<rparr>,
      \<lparr>role = Model, content = ''Again''\<rparr>] \<and>
   requests w_retried =
     [(0, initialPrompt tokyoPlan), (0, ''Any cheap flights?''), (1, initialPrompt tokyoPlan)]"
  by (simp add: w_retried_def w_failed_eq run_simps scene_simps)

text \<open>
  C2, amended: when retry is invoked while a profile is stored (as it is after a failed
  send whose error does not mention the API key) and the session opens, the manager
  starts over: it creates a new session, sends the bootstrap utterance of the stored
  profile on it, and resets the history to the bootstrap user message followed by the
  reply of that turn. No user message is duplicated; the earlier messages are dropped.
\<close>

theorem retry_restarts_from_bootstrap:
  assumes "travelPlan w = Some plan" and "API_KEY e \<noteq> []" and "createError e = None"
  shows "messages (handleRetry e strm w) =
           [\<lparr>role = User, content = initialPrompt plan\<rparr>] @
           (if delivered (chunks strm) = [] then []
            else [\<lparr>role = Model, content = concat (delivered (chunks strm))\<rparr>]) \<and>
         requests (handleRetry e strm w) =
           requests w @ [(chatsCreated w, initialPrompt plan)] \<and>
         chatRef (handleRetry e strm w) = Some (chatsCreated w)"
  using assms
  by (cases "failure strm")
     (simp_all add: handleRetry_def initializeChatSession_run modelTurn_def)

theorem retry_restarts_from_bootstrap_witness:
  "travelPlan w_failed = Some tokyoPlan \<and> API_KEY env_plain \<noteq> [] \<and>
   createError env_plain = None \<and>
   messages (handleRetry env_plain again_stream w_failed) =
     [\<lparr>role = User, content = initialPrompt tokyoPlan\<rparr>,
      \<lparr>role = Model, content = ''Again''\<rparr>] \<and>
   requests (handleRetry env_plain again_stream w_failed) =
     [(0, initialPrompt tokyoPlan), (0, ''Any cheap flights?''), (1, initialPrompt tokyoPlan)] \<and>
   chatRef (handleRetry env_plain again_stream w_failed) = Some 1"
  using retry_restarts_from_bootstrap [of w_failed tokyoPlan env_plain again_stream]
  by (simp add: w_failed_eq scene_simps delivered_def)

section \<open>C3: a send that is not accepted\<close>

lemmas trim_simps = str_trim_def isWhiteSpace1_def isWhiteSpace2_def isWhiteSpace3_def

lemma w_retryfail_eq:
  "w_retryfail = w_failed\<lparr>error := Some ''fetch failed'', currentChat := None\<rparr>"
  by (simp add: w_retryfail_def w_failed_eq run_simps scene_simps)

text \<open>
  C3, as claimed: a send in any state but the ready one raises an error and leaves the
  history unchanged. Three states show otherwise. While a turn is in flight, a submit
  of the typed text changes nothing at all: the history stays, but no error is raised
  or shown either. In the failed state (an error is shown, nothing is loading, a
  session exists) a send is accepted: the user message is appended and the turn runs.
  And when the application still holds a session handle but the service holds no
  session (after a retry on which the session could not be created), a send does
  raise an error, but only after it has appended the user message.
\<close>

theorem send_not_ready_counterexample:
  "isLoading w_inflight \<and> str_trim (input w_inflight) = ''Any cheap flights?'' \<and>
   handleSubmit env_plain again_stream w_inflight = w_inflight \<and>
   error w_inflight = None \<and>
   error w_failed = Some ''Failed to get response from Gemini: network error'' \<and>
   messages (handleSendMessage env_plain again_stream ''And hotels?'' w_failed) =
     messages w_failed @
     [\<lparr>role = User, content = ''And hotels?''\<rparr>, \<lparr>role = Model, content = ''Again''\<rparr>] \<and>
   chatRef w_retryfail = Some 0 \<and> currentChat w_retryfail = None \<and>
   error w_retryfail = Some ''fetch failed'' \<and>
   messages (handleSendMessage env_plain again_stream ''And hotels?'' w_retryfail) =
     messages w_retryfail @ [\<lparr>role = User, content = ''And hotels?''\<rparr>] \<and>
   error (handleSendMessage env_plain again_stream ''And hotels?'' w_retryfail) =
     Some ''Gemini chat session is not initialized. Please call initGeminiChat first.''"
  by (simp add: w_inflight_def w_retryfail_eq w_failed_eq run_simps scene_simps trim_simps)

text \<open>
  C3, amended: a send leaves the history unchanged in these cases only. When the
  application holds no session handle, \<open>handleSendMessage\<close> sets the error that no
  session is initialised and changes nothing else. When a turn is loading, or the text
  of the input field is empty once trimmed, the input form drops the submit without
  any change of state, so without an error. Any other submit hands the text of the
  field to \<open>handleSendMessage\<close> and clears the field. With a session handle,
  \<open>handleSendMessage\<close> (which does not look at the loading flag or at an error
  shown) always appends the user message behind the unchanged history. If the service
  then holds no session, no request is sent, the error that the chat session is not
  initialised is set, and the appended user message stays. If it holds one, the
  request is sent on it and the reply is folded behind the user message.
\<close>

theorem send_outcome_by_state:
  "(chatRef w = None \<longrightarrow>
      handleSendMessage e strm txt w = w\<lparr>error := Some notInitializedMessage\<rparr>) \<and>
   (isLoading w \<or> str_trim (input w) = [] \<longrightarrow> handleSubmit e strm w = w) \<and>
   (\<not> isLoading w \<and> str_trim (input w) \<noteq> [] \<longrightarrow>
      handleSubmit e strm w = (handleSendMessage e strm (input w) w)\<lparr>input := []\<rparr>) \<and>
   (chatRef w = Some c \<and> currentChat w = None \<longrightarrow>
      handleSendMessage e strm txt w =
        w\<lparr>messages := messages w @ [\<lparr>role = User, content = txt\<rparr>],
           isLoading := False,
           error := Some (''Gemini chat session is not initialized. '' @
                          ''Please call initGeminiChat first.'')\<rparr>) \<and>
   (chatRef w = Some c \<and> currentChat w = Some chat \<longrightarrow>
      messages (handleSendMessage e strm txt w) =
        messages w @ [\<lparr>role = User, content = txt\<rparr>] @
        (if delivered (chunks strm) = [] then []
         else [\<lparr>role = Model, content = concat (delivered (chunks strm))\<rparr>]) \<and>
      requests (handleSendMessage e strm txt w) = requests w @ [(chat, txt)])"
proof (intro conjI impI)
  assume "chatRef w = None"
  then show "handleSendMessage e strm txt w = w\<lparr>error := Some notInitializedMessage\<rparr>"
    by (simp add: handleSendMessage_def)
next
  assume "isLoading w \<or> str_trim (input w) = []"
  then show "handleSubmit e strm w = w"
    by (auto simp: handleSubmit_def)
next
  assume "\<not> isLoading w \<and> str_trim (input w) \<noteq> []"
  then show "handleSubmit e strm w = (handleSendMessage e strm (input w) w)\<lparr>input := []\<rparr>"
    by (simp add: handleSubmit_def)
next
  assume "chatRef w = Some c \<and> currentChat w = None"
  then show "handleSendMessage e strm txt w =
        w\<lparr>messages := messages w @ [\<lparr>role = User, content = txt\<rparr>],
           isLoading := False,
           error := Some (''Gemini chat session is not initialized. '' @
                          ''Please call initGeminiChat first.'')\<rparr>"
    by (simp add: handleSendMessage_def sendMessage_def catchBlock_def str_includes_def)
next
  assume a: "chatRef w = Some c \<and> currentChat w = Some chat"
  then show "messages (handleSendMessage e strm txt w) =
        messages w @ [\<lparr>role = User, content = txt\<rparr>] @
        (if delivered (chunks strm) = [] then []
         else [\<lparr>role = Model, content = concat (delivered (chunks strm))\<rparr>])"
    by (cases "failure strm") (simp_all add: handleSendMessage_run modelTurn_def)
  from a show "requests (handleSendMessage e strm txt w) = requests w @ [(chat, txt)]"
    by (cases "failure strm") (simp_all add: handleSendMessage_run)
qed

theorem send_outcome_by_state_witness:
  "chatRef world0 = None \<and>
   handleSendMessage env_plain hello_stream ''Any cheap flights?'' world0 =
     world0\<lparr>error := Some notInitializedMessage\<rparr> \<and>
   isLoading w_inflight \<and> handleSubmit env_plain hello_stream w_inflight = w_inflight \<and>
   str_trim (input w_blank) = [] \<and> handleSubmit env_plain hello_stream w_blank = w_blank \<and>
   \<not> isLoading w_typed \<and> str_trim (input w_typed) = ''And hotels?'' \<and>
   handleSubmit env_plain hello_stream w_typed =
     (handleSendMessage env_plain hello_stream ''And hotels?'' w_typed)\<lparr>input := []\<rparr> \<and>
   chatRef w_retryfail = Some 0 \<and> currentChat w_retryfail = None \<and>
   handleSendMessage env_plain hello_stream ''And hotels?'' w_retryfail =
     w_retryfail
      \<lparr>messages := messages w_retryfail @ [\<lparr>role = User, content = ''And hotels?''\<rparr>],
       isLoading := False,
       error := Some ''Gemini chat session is not initialized. Please call initGeminiChat first.''\<rparr> \<and>
   chatRef w_typed = Some 0 \<and> currentChat w_typed = Some 0 \<and>
   messages (handleSendMessage env_plain hello_stream ''And hotels?'' w_typed) =
     messages w_typed @
     [\<lparr>role = User, content = ''And hotels?''\<rparr>, \<lparr>role = Model, content = ''Hello!''\<rparr>] \<and>
   requests (handleSendMessage env_plain hello_stream ''And hotels?'' w_typed) =
     requests w_typed @ [(0, ''And hotels?'')]"
  using
    send_outcome_by_state [of world0 env_plain hello_stream "''Any cheap flights?''" 0 0]
    send_outcome_by_state [of w_inflight env_plain hello_stream "[]" 0 0]
    send_outcome_by_state [of w_blank env_plain hello_stream "[]" 0 0]
    send_outcome_by_state [of w_typed env_plain hello_stream "''And hotels?''" 0 0]
    send_outcome_by_state [of w_retryfail env_plain hello_stream "''And hotels?''" 0 0]
  by (simp add: world0_def w_inflight_def w_blank_def w_typed_def w_retryfail_eq
      w_started_eq w_failed_eq trim_simps hello_stream_def delivered_def)

section \<open>C4: fragments of a superseded stream\<close>

text \<open>
  C4, as claimed: after a new start, no fragment of the stream of the superseded
  session is folded into the current history. The code neither cancels that stream nor
  marks its fragments. While the bootstrap turn of a first start is in flight, with
  \<open>Hel\<close> folded (the state is the one the whole turn would end in, but for the loading
  flag), a second start runs to its end on a new session, with the reply \<open>Again\<close>.
  Then the first stream delivers its next fragment: it is appended to the reply of the
  new session.
\<close>

theorem stale_fragment_counterexample:
  "initializeChatSession env_plain \<lparr>chunks = [''Hel''], failure = None\<rparr> tokyoPlan world0 =
     w_inflight\<lparr>isLoading := False, input := []\<rparr> \<and>
   chatRef w_inflight = Some 0 \<and> chatRef w_superseded = Some 1 \<and>
   messages w_superseded =
     [\<lparr>role = User, content = initialPrompt osakaPlan\<rparr>,
      \<lparr>role = Model, content = ''Again''\<rparr>] \<and>
   messages w_stale =
     [\<lparr>role = User, content = initialPrompt osakaPlan\<rparr>,
      \<lparr>role = Model, content = ''Againlo!''\<rparr>]"
  by (simp add: w_stale_def w_superseded_def w_inflight_def run_simps scene_simps)

text \<open>
  C4, amended: a new start whose session opens replaces the session handle by a new
  one and resets the history to its bootstrap user message and the reply folded so
  far, so that what an earlier stream had folded before is gone. But a fragment that
  any earlier stream delivers afterwards is folded like a fragment of the current
  turn: the loop of \<open>sendMessage\<close> and the callback carry no session handle, and the
  fragment extends the trailing model message, or starts one.
\<close>

theorem stale_fragment_is_folded:
  assumes "API_KEY e \<noteq> []" and "createError e = None" and "fragment \<noteq> []"
  shows "chatRef (initializeChatSession e strm plan w) = Some (chatsCreated w) \<and>
         messages (snd (forAwait onChunkReceived [fragment]
                          (soFar, initializeChatSession e strm plan w))) =
           [\<lparr>role = User, content = initialPrompt plan\<rparr>,
            \<lparr>role = Model, content = concat (chunks strm) @ fragment\<rparr>]"
proof -
  let ?w = "initializeChatSession e strm plan w"
  have m: "messages ?w =
      [\<lparr>role = User, content = initialPrompt plan\<rparr>] @ modelTurn (delivered (chunks strm))"
    and c: "chatRef ?w = Some (chatsCreated w)"
    using assms(1,2) by (cases "failure strm"; simp add: initializeChatSession_run)+
  have "appendChunk fragment (messages ?w) =
      [\<lparr>role = User, content = initialPrompt plan\<rparr>,
       \<lparr>role = Model, content = concat (chunks strm) @ fragment\<rparr>]"
  proof (cases "delivered (chunks strm) = []")
    case True
    then have "concat (chunks strm) = []"
      using concat_delivered [of "chunks strm"] by simp
    with True m show ?thesis by (simp add: modelTurn_def appendChunk_single)
  next
    case False
    with m show ?thesis
      by (simp add: modelTurn_def appendChunk_Cons appendChunk_single concat_delivered)
  qed
  with c assms(3) show ?thesis by (simp add: onChunkReceived_def)
qed

theorem stale_fragment_is_folded_witness:
  "API_KEY env_plain \<noteq> [] \<and> createError env_plain = None \<and> ''lo!'' \<noteq> [] \<and>
   chatRef (initializeChatSession env_plain again_stream osakaPlan w_inflight) = Some 1 \<and>
   messages (snd (forAwait onChunkReceived [''lo!'']
                    (''Hel'', initializeChatSession env_plain again_stream osakaPlan
                                w_inflight))) =
     [\<lparr>role = User, content = initialPrompt osakaPlan\<rparr>,
      \<lparr>role = Model, content = ''Againlo!''\<rparr>]"
  using stale_fragment_is_folded [of env_plain "''lo!''" again_stream osakaPlan w_inflight
      "''Hel''"]
  by (simp add: w_inflight_def scene_simps)

section \<open>C5: a stream failure keeps the partial reply\<close>

text \<open>
  C5. When the stream of a turn fails, after any number of fragments, the handler ends
  in the failed state (an error is set and nothing is loading), the error surfaced is
  the one \<open>sendMessage\<close> throws for the failure, and the history holds the user
  message of the turn followed by the model message built from the fragments that had
  arrived, as built: nothing is rolled back. This holds for a send on an open session
  and for the bootstrap turn of a start whose session opens.
\<close>

theorem stream_failure_keeps_partial_reply:
  "(chatRef w = Some c \<and> currentChat w = Some chat \<and> failure strm = Some m \<longrightarrow>
      messages (handleSendMessage e strm txt w) =
        messages w @ [\<lparr>role = User, content = txt\<rparr>] @
        (if delivered (chunks strm) = [] then []
         else [\<lparr>role = Model, content = concat (delivered (chunks strm))\<rparr>]) \<and>
      error (handleSendMessage e strm txt w) = Some (thrownMessage e m) \<and>
      isLoading (handleSendMessage e strm txt w) = False) \<and>
   (API_KEY e \<noteq> [] \<and> createError e = None \<and> failure strm = Some m \<longrightarrow>
      messages (initializeChatSession e strm plan w) =
        [\<lparr>role = User, content = initialPrompt plan\<rparr>] @
        (if delivered (chunks strm) = [] then []
         else [\<lparr>role = Model, content = concat (delivered (chunks strm))\<rparr>]) \<and>
      error (initializeChatSession e strm plan w) = Some (thrownMessage e m) \<and>
      isLoading (initializeChatSession e strm plan w) = False)"
  by (simp add: handleSendMessage_run initializeChatSession_run modelTurn_def)

theorem stream_failure_keeps_partial_reply_witness:
  "chatRef w_started = Some 0 \<and> currentChat w_started = Some 0 \<and>
   failure broken_stream = Some ''network error'' \<and>
   messages (handleSendMessage env_plain broken_stream ''Any cheap flights?'' w_started) =
     [\<lparr>role = User, content = initialPrompt tokyoPlan\<rparr>,
      \<lparr>role = Model, content = ''Hello!''\<rparr>,
      \<lparr>role = User, content = ''Any cheap flights?''\<rparr>,
      \<lparr>role = Model, content = ''Sure, ''\<rparr>] \<and>
   error (handleSendMessage env_plain broken_stream ''Any cheap flights?'' w_started) =
     Some ''Failed to get response from Gemini: network error'' \<and>
   isLoading (handleSendMessage env_plain broken_stream ''Any cheap flights?'' w_started) =
     False \<and>
   API_KEY env_plain \<noteq> [] \<and> createError env_plain = None \<and>
   messages (initializeChatSession env_plain broken_stream tokyoPlan world0) =
     [\<lparr>role = User, content = initialPrompt tokyoPlan\<rparr>,
      \<lparr>role = Model, content = ''Sure, ''\<rparr>] \<and>
   error (initializeChatSession env_plain broken_stream tokyoPlan world0) =
     Some ''Failed to get response from Gemini: network error''"
  using
    stream_failure_keeps_partial_reply [of w_started 0 0 broken_stream "''network error''"
      env_plain "''Any cheap flights?''" tokyoPlan]
    stream_failure_keeps_partial_reply [of world0 0 0 broken_stream "''network error''"
      env_plain "[]" tokyoPlan]
  by (simp add: w_started_eq scene_simps delivered_def thrownMessage_def str_includes_def)

section \<open>C6: the rendering is not literal on a dollar sign\<close>

text \<open>
  C6. The claim: rendering the bootstrap utterance is the literal replacement of each
  placeholder by the textual form of its field. The code calls
  \<open>String.prototype.replace\<close> with the field as the replacement string, in which a
  dollar sign starts a substitution pattern. For the destination \<open>Las Vegas $$\<close> the
  rendered utterance reads \<open>Las Vegas $\<close>: it is the literal rendering of another
  plan, and not the literal rendering of the plan it was given.
\<close>

theorem prompt_rewrites_dollar_signs:
  "initialPrompt vegasPlan = literalPrompt (vegasPlan\<lparr>destination := ''Las Vegas $''\<rparr>) \<and>
   initialPrompt vegasPlan \<noteq> literalPrompt vegasPlan"
proof -
  have A: "CHR ''{'' \<notin> set (tmpl_opening @ ''Las Vegas $'')"
    by (simp add: tmpl_no_brace)
  have d: "getSubstitution ''{destination}'' INITIAL_PROMPT_TEMPLATE (length tmpl_opening)
             (destination vegasPlan) = ''Las Vegas $''"
    by (simp add: vegasPlan_def)
  have p: "plainText (travelDates vegasPlan)" "plainText (travelStyle vegasPlan)"
    "CHR ''$'' \<notin> set (specialInterests vegasPlan)"
    by (simp_all add: vegasPlan_def tokyoPlan_def plainText_def)
  have rendered:
    "initialPrompt vegasPlan = literalPrompt (vegasPlan\<lparr>destination := ''Las Vegas $''\<rparr>)"
    using render_after_destination [OF A p]
    by (simp add: initialPrompt_unfold first_substitution d literalPrompt_def)
  have "length (literalPrompt (vegasPlan\<lparr>destination := ''Las Vegas $''\<rparr>)) \<noteq>
        length (literalPrompt vegasPlan)"
    by (simp add: literalPrompt_def vegasPlan_def)
  then have "literalPrompt (vegasPlan\<lparr>destination := ''Las Vegas $''\<rparr>) \<noteq>
             literalPrompt vegasPlan"
    by auto
  with rendered show ?thesis by simp
qed

section \<open>C7: a new turn leaves the earlier messages alone\<close>

text \<open>
  C7. A new turn never appends fragment text to a message of an earlier turn. A send on
  a state that holds a session keeps the whole earlier history as it is and puts the
  new user message right after it, whatever the stream then does, so that the fragments
  of the new turn fold behind that message. A start whose session opens begins the
  history anew with its bootstrap user message.
\<close>

theorem new_turn_leaves_earlier_messages:
  "(chatRef w = Some c \<longrightarrow>
      prefix (messages w @ [\<lparr>role = User, content = txt\<rparr>])
        (messages (handleSendMessage e strm txt w))) \<and>
   (API_KEY e \<noteq> [] \<and> createError e = None \<longrightarrow>
      prefix [\<lparr>role = User, content = initialPrompt plan\<rparr>]
        (messages (initializeChatSession e strm plan w)))"
proof (intro conjI impI)
  assume c: "chatRef w = Some c"
  show "prefix (messages w @ [\<lparr>role = User, content = txt\<rparr>])
        (messages (handleSendMessage e strm txt w))"
  proof (cases "currentChat w")
    case None
    with c show ?thesis by (simp add: handleSendMessage_no_service_session)
  next
    case (Some chat)
    with c show ?thesis
      by (cases "failure strm") (simp_all add: handleSendMessage_run)
  qed
next
  assume "API_KEY e \<noteq> [] \<and> createError e = None"
  then show "prefix [\<lparr>role = User, content = initialPrompt plan\<rparr>]
        (messages (initializeChatSession e strm plan w))"
    by (cases "failure strm") (simp_all add: initializeChatSession_run)
qed

theorem new_turn_leaves_earlier_messages_witness:
  "chatRef w_failed = Some 0 \<and>
   prefix (messages w_failed @ [\<lparr>role = User, content = ''And hotels?''\<rparr>])
     (messages (handleSendMessage env_plain hello_stream ''And hotels?'' w_failed)) \<and>
   messages (handleSendMessage env_plain hello_stream ''And hotels?'' w_failed) =
     messages w_failed @
     [\<lparr>role = User, content = ''And hotels?''\<rparr>, \<lparr>role = Model, content = ''Hello!''\<rparr>] \<and>
   API_KEY env_plain \<noteq> [] \<and> createError env_plain = None \<and>
   prefix [\<lparr>role = User, content = initialPrompt osakaPlan\<rparr>]
     (messages (initializeChatSession env_plain hello_stream osakaPlan w_failed))"
proof -
  have "messages (handleSendMessage env_plain hello_stream ''And hotels?'' w_failed) =
     messages w_failed @
     [\<lparr>role = User, content = ''And hotels?''\<rparr>, \<lparr>role = Model, content = ''Hello!''\<rparr>]"
    by (simp add: w_failed_eq run_simps scene_simps)
  then show ?thesis
    using new_turn_leaves_earlier_messages [of w_failed 0 "''And hotels?''" env_plain
        hello_stream osakaPlan]
    by (simp add: w_failed_eq scene_simps)
qed

section \<open>C8: retry after a failed start\<close>

text \<open>
  C8, as claimed: when a start fails before its bootstrap user message is appended,
  retry invokes start again with the last known profile, and the history ends up with
  exactly one bootstrap user message. In the code the profile is stored only once the
  session has opened. A first start on which the session cannot be created leaves no
  session and no profile; a retry, even when the session could now be created, creates
  no session and sends no request: it empties the history and clears the error, which
  leads back to the collection of the profile. No bootstrap user message is there.
  The same happens when the start fails for want of an API key: the retry does not run
  the start again (the error stays cleared).
\<close>

theorem retry_after_failed_start_counterexample:
  "chatRef w_initfail = None \<and> travelPlan w_initfail = None \<and>
   error w_initfail = Some ''fetch failed'' \<and> messages w_initfail = [] \<and>
   messages w_initretry = [] \<and> requests w_initretry = [] \<and>
   chatsCreated w_initretry = 0 \<and> error w_initretry = None \<and>
   travelPlan w_initretry = None \<and>
   error w_nokey = Some ''Gemini API Key is not set in environment variables.'' \<and>
   travelPlan w_nokey = None \<and>
   messages w_nokeyretry = [] \<and> requests w_nokeyretry = [] \<and> error w_nokeyretry = None"
  by (simp add: w_initretry_def w_initfail_def w_nokeyretry_def w_nokey_def run_simps
      scene_simps)

text \<open>
  C8, amended: a start whose session does not open (no API key, or the library fails
  to create the session) leaves history, request log and session handle as they were,
  and stores no profile. A retry with no profile stored does not start again: it only
  clears the error and the history. A retry starts again exactly when a profile is
  stored, from an earlier start whose session had opened; if the session opens now,
  the history then holds exactly one user message, the bootstrap utterance.
\<close>

theorem retry_after_failed_start:
  "((API_KEY e = [] \<or> createError e \<noteq> None) \<and> travelPlan w = None \<longrightarrow>
      travelPlan (initializeChatSession e strm plan w) = None \<and>
      messages (initializeChatSession e strm plan w) = messages w \<and>
      requests (initializeChatSession e strm plan w) = requests w \<and>
      chatRef (initializeChatSession e strm plan w) = chatRef w) \<and>
   (travelPlan w = None \<longrightarrow>
      handleRetry e strm w = w\<lparr>error := None, travelPlan := None, messages := []\<rparr>) \<and>
   (travelPlan w = Some plan \<and> API_KEY e \<noteq> [] \<and> createError e = None \<longrightarrow>
      filter (\<lambda>msg. role msg = User) (messages (handleRetry e strm w)) =
        [\<lparr>role = User, content = initialPrompt plan\<rparr>])"
proof (intro conjI impI)
  assume a: "(API_KEY e = [] \<or> createError e \<noteq> None) \<and> travelPlan w = None"
  then have f: "API_KEY e = [] \<or> createError e \<noteq> None" and n: "travelPlan w = None"
    by simp_all
  show "travelPlan (initializeChatSession e strm plan w) = None"
    using initializeChatSession_not_opened(4) [OF f n] .
  show "messages (initializeChatSession e strm plan w) = messages w"
    using initializeChatSession_not_opened(1) [OF f] .
  show "requests (initializeChatSession e strm plan w) = requests w"
    using initializeChatSession_not_opened(2) [OF f] .
  show "chatRef (initializeChatSession e strm plan w) = chatRef w"
    using initializeChatSession_not_opened(3) [OF f] .
next
  assume "travelPlan w = None"
  then show "handleRetry e strm w = w\<lparr>error := None, travelPlan := None, messages := []\<rparr>"
    by (simp add: handleRetry_def)
next
  assume "travelPlan w = Some plan \<and> API_KEY e \<noteq> [] \<and> createError e = None"
  then show "filter (\<lambda>msg. role msg = User) (messages (handleRetry e strm w)) =
        [\<lparr>role = User, content = initialPrompt plan\<rparr>]"
    by (cases "failure strm")
       (simp_all add: handleRetry_def initializeChatSession_run modelTurn_def)
qed

theorem retry_after_failed_start_witness:
  "(API_KEY env_down = [] \<or> createError env_down = Some ''fetch failed'') \<and>
   travelPlan world0 = None \<and>
   travelPlan (initializeChatSession env_down hello_stream tokyoPlan world0) = None \<and>
   messages (initializeChatSession env_down hello_stream tokyoPlan world0) = [] \<and>
   requests (initializeChatSession env_down hello_stream tokyoPlan world0) = [] \<and>
   chatRef (initializeChatSession env_down hello_stream tokyoPlan world0) = None \<and>
   travelPlan w_initfail = None \<and>
   handleRetry env_plain hello_stream w_initfail =
     w_initfail\<lparr>error := None, travelPlan := None, messages := []\<rparr> \<and>
   travelPlan w_failed = Some tokyoPlan \<and> API_KEY env_plain \<noteq> [] \<and>
   createError env_plain = None \<and>
   filter (\<lambda>msg. role msg = User) (messages (handleRetry env_plain hello_stream w_failed)) =
     [\<lparr>role = User, content = initialPrompt tokyoPlan\<rparr>]"
proof -
  have n: "travelPlan w_initfail = None"
    by (simp add: w_initfail_def run_simps scene_simps)
  show ?thesis
    using
      retry_after_failed_start [of env_down world0 hello_stream tokyoPlan]
      retry_after_failed_start [of env_plain w_initfail hello_stream tokyoPlan]
      retry_after_failed_start [of env_plain w_failed hello_stream tokyoPlan]
      n
    by (simp add: w_failed_eq scene_simps)
qed

section \<open>C9: failures that point at the API key\<close>






section \<open>C10: the history argument of sendMessage\<close>

text \<open>
  C10. \<open>sendMessage\<close> never reads its history argument: for any two histories it sends
  the same request on the same session, calls the callback on the same chunks in the
  same order (whatever the callback is), and returns or throws the same; the whole
  outcome, the state with its request log included, is the same.
\<close>

theorem sendMessage_ignores_history:
  "sendMessage e strm message h1 onChunk w = sendMessage e strm message h2 onChunk w"
  by (simp add: sendMessage_def)

end
